theory Spec2Isabelle
  imports Complex_Main
begin

section \<open>Python numbers\<close>

text \<open>
  The layout engine of \<^verbatim>\<open>pyhanko/pdf_utils/layout.py\<close> computes with three kinds of
  Python numbers: \<^verbatim>\<open>int\<close> (unbounded), \<^verbatim>\<open>fractions.Fraction\<close> (exact) and
  \<^verbatim>\<open>float\<close> (the result of \<^verbatim>\<open>/\<close> on two ints). A finite float is a rational
  number, so a float is represented by its exact value; every float operation rounds its exact
  result with the function \<open>rnd\<close> (round to the nearest double), which the model takes as a
  parameter. Infinities, NaN and \<^verbatim>\<open>OverflowError\<close> on huge operands are outside the model.
\<close>

datatype pynum = PyInt int | PyFrac rat | PyFloat rat

fun val :: "pynum \<Rightarrow> rat" where
  "val (PyInt i) = of_int i"
| "val (PyFrac q) = q"
| "val (PyFloat v) = v"

fun is_float :: "pynum \<Rightarrow> bool" where
  "is_float (PyFloat v) = True"
| "is_float (PyInt i) = False"
| "is_float (PyFrac q) = False"

text \<open>\<^verbatim>\<open>float(x)\<close>: an int or a Fraction is rounded, a float is kept.\<close>

fun to_float :: "(rat \<Rightarrow> rat) \<Rightarrow> pynum \<Rightarrow> rat" where
  "to_float rnd (PyFloat v) = v"
| "to_float rnd (PyInt i) = rnd (of_int i)"
| "to_float rnd (PyFrac q) = rnd q"

text \<open>
  The coercion of \<^verbatim>\<open>+\<close>, \<^verbatim>\<open>-\<close> and \<^verbatim>\<open>*\<close>: a float operand makes both operands
  floats and the result a rounded float; otherwise a Fraction operand makes the result an exact
  Fraction; two ints give an int.
\<close>

fun arith :: "(rat \<Rightarrow> rat) \<Rightarrow> (int \<Rightarrow> int \<Rightarrow> int) \<Rightarrow> (rat \<Rightarrow> rat \<Rightarrow> rat) \<Rightarrow> pynum \<Rightarrow> pynum \<Rightarrow> pynum" where
  "arith rnd iop qop (PyInt i) (PyInt j) = PyInt (iop i j)"
| "arith rnd iop qop a b =
     (if is_float a \<or> is_float b then PyFloat (rnd (qop (to_float rnd a) (to_float rnd b)))
      else PyFrac (qop (val a) (val b)))"

definition py_add :: "(rat \<Rightarrow> rat) \<Rightarrow> pynum \<Rightarrow> pynum \<Rightarrow> pynum" where
  "py_add rnd a b = arith rnd (\<lambda>i j. i + j) (\<lambda>p q. p + q) a b"

definition py_sub :: "(rat \<Rightarrow> rat) \<Rightarrow> pynum \<Rightarrow> pynum \<Rightarrow> pynum" where
  "py_sub rnd a b = arith rnd (\<lambda>i j. i - j) (\<lambda>p q. p - q) a b"

definition py_mul :: "(rat \<Rightarrow> rat) \<Rightarrow> pynum \<Rightarrow> pynum \<Rightarrow> pynum" where
  "py_mul rnd a b = arith rnd (\<lambda>i j. i * j) (\<lambda>p q. p * q) a b"

text \<open>Comparisons between ints, Fractions and floats are exact in Python.\<close>

definition py_lt :: "pynum \<Rightarrow> pynum \<Rightarrow> bool" where
  "py_lt a b = (val a < val b)"

definition py_gt :: "pynum \<Rightarrow> pynum \<Rightarrow> bool" where
  "py_gt a b = (val b < val a)"

text \<open>
  \<^verbatim>\<open>min(a, b)\<close> and \<^verbatim>\<open>min(a, b, c)\<close> walk their arguments from left to right and
  replace the current minimum only by a strictly smaller item.
\<close>

definition py_min :: "pynum \<Rightarrow> pynum \<Rightarrow> pynum" where
  "py_min a b = (if py_lt b a then b else a)"

definition py_min3 :: "pynum \<Rightarrow> pynum \<Rightarrow> pynum \<Rightarrow> pynum" where
  "py_min3 a b c = py_min (py_min a b) c"

text \<open>\<^verbatim>\<open>int(x)\<close> truncates toward zero.\<close>

definition trunc :: "rat \<Rightarrow> int" where
  "trunc q = (if 0 \<le> q then floor q else ceiling q)"

definition py_int :: "pynum \<Rightarrow> pynum" where
  "py_int a = (case a of PyInt i \<Rightarrow> PyInt i | PyFrac q \<Rightarrow> PyInt (trunc q) | PyFloat v \<Rightarrow> PyInt (trunc v))"

section \<open>Errors\<close>

text \<open>
  \<^verbatim>\<open>LayoutError\<close> carries the message built by \<^verbatim>\<open>Margins.effective\<close>, kept here as the
  four values the message is formatted from (dimension name, container length, the two margins).
  \<^verbatim>\<open>BoxSpecificationError\<close> is raised without arguments. \<^verbatim>\<open>ZeroDivisionError\<close> and
  \<^verbatim>\<open>TypeError\<close> come from Python's arithmetic and from the \<^verbatim>\<open>Fraction\<close> constructor.
\<close>

datatype error =
    LayoutError string pynum pynum pynum
  | BoxSpecificationError
  | ZeroDivisionError
  | TypeError

text \<open>\<^verbatim>\<open>a / b\<close>: two ints give a float; a zero divisor raises.\<close>

definition py_truediv :: "(rat \<Rightarrow> rat) \<Rightarrow> pynum \<Rightarrow> pynum \<Rightarrow> error + pynum" where
  "py_truediv rnd a b =
     (if is_float a \<or> is_float b then
        (if to_float rnd b = 0 then Inl ZeroDivisionError
         else Inr (PyFloat (rnd (to_float rnd a / to_float rnd b))))
      else if val b = 0 then Inl ZeroDivisionError
      else (case (a, b) of
              (PyInt i, PyInt j) \<Rightarrow> Inr (PyFloat (rnd (of_int i / of_int j)))
            | _ \<Rightarrow> Inr (PyFrac (val a / val b))))"

text \<open>
  \<^verbatim>\<open>a // b\<close>: the floor of the quotient, an int unless an operand is a float. The source
  only divides by the literal 2, where the float case is exact before the final rounding.
\<close>

definition py_floordiv :: "(rat \<Rightarrow> rat) \<Rightarrow> pynum \<Rightarrow> pynum \<Rightarrow> error + pynum" where
  "py_floordiv rnd a b =
     (if is_float a \<or> is_float b then
        (if to_float rnd b = 0 then Inl ZeroDivisionError
         else Inr (PyFloat (rnd (of_int (floor (to_float rnd a / to_float rnd b))))))
      else if val b = 0 then Inl ZeroDivisionError
      else Inr (PyInt (floor (val a / val b))))"

text \<open>
  \<^verbatim>\<open>Fraction(a, b)\<close>: both arguments must be rational (int or Fraction), which is checked
  before the denominator is compared with zero.
\<close>

definition py_Fraction :: "pynum \<Rightarrow> pynum \<Rightarrow> error + rat" where
  "py_Fraction a b =
     (if is_float a \<or> is_float b then Inl TypeError
      else if val b = 0 then Inl ZeroDivisionError
      else Inr (val a / val b))"

section \<open>BoxConstraints\<close>

text \<open>
  The fields \<^verbatim>\<open>_width\<close>, \<^verbatim>\<open>_height\<close>, \<^verbatim>\<open>_ar\<close> and \<^verbatim>\<open>_fully_specified\<close>.
  \<open>None\<close> in \<open>box_fully_specified\<close> is the attribute never assigned: the constructor called
  without arguments returns before the assignment.
\<close>

record BoxConstraints =
  box_width :: "pynum option"
  box_height :: "pynum option"
  box_ar :: "rat option"
  box_fully_specified :: "bool option"

text \<open>
  \<^verbatim>\<open>BoxConstraints.__init__(width, height, aspect_ratio)\<close>. The two dimensions are stored
  through \<^verbatim>\<open>int\<close>; the branch for an aspect ratio with one dimension assigns
  \<^verbatim>\<open>height * aspect_ratio\<close> or \<^verbatim>\<open>width / aspect_ratio\<close> from the raw arguments.
\<close>

definition BoxConstraints_init ::
  "(rat \<Rightarrow> rat) \<Rightarrow> pynum option \<Rightarrow> pynum option \<Rightarrow> rat option \<Rightarrow> error + BoxConstraints" where
  "BoxConstraints_init rnd width height aspect_ratio =
     (let w0 = map_option py_int width; h0 = map_option py_int height in
      if width = None \<and> height = None \<and> aspect_ratio = None then
        Inr \<lparr>box_width = w0, box_height = h0, box_ar = None, box_fully_specified = None\<rparr>
      else if width \<noteq> None \<and> height \<noteq> None then
        (if aspect_ratio \<noteq> None then Inl BoxSpecificationError
         else (case py_Fraction (the w0) (the h0) of
                 Inl e \<Rightarrow> Inl e
               | Inr r \<Rightarrow> Inr \<lparr>box_width = w0, box_height = h0, box_ar = Some r,
                               box_fully_specified = Some True\<rparr>))
      else (case aspect_ratio of
              Some ar \<Rightarrow>
                (case height of
                   Some h \<Rightarrow> Inr \<lparr>box_width = Some (py_mul rnd h (PyFrac ar)), box_height = h0,
                                   box_ar = Some ar, box_fully_specified = Some False\<rparr>
                 | None \<Rightarrow>
                     (case width of
                        Some w \<Rightarrow>
                          (case py_truediv rnd w (PyFrac ar) of
                             Inl e \<Rightarrow> Inl e
                           | Inr h' \<Rightarrow> Inr \<lparr>box_width = w0, box_height = Some h',
                                             box_ar = Some ar, box_fully_specified = Some False\<rparr>)
                      | None \<Rightarrow> Inr \<lparr>box_width = w0, box_height = h0, box_ar = Some ar,
                                      box_fully_specified = Some False\<rparr>))
            | None \<Rightarrow> Inr \<lparr>box_width = w0, box_height = h0, box_ar = None,
                            box_fully_specified = Some False\<rparr>))"

text \<open>
  \<^verbatim>\<open>_recalculate\<close>. A method that mutates the box returns the outcome together with the
  box as the call leaves it: an assignment made before an exception is raised stays.
\<close>

definition recalculate :: "(rat \<Rightarrow> rat) \<Rightarrow> BoxConstraints \<Rightarrow> (error + unit) \<times> BoxConstraints" where
  "recalculate rnd box =
     (case (box_width box, box_height box) of
        (Some w, Some h) \<Rightarrow>
          (case py_Fraction w h of
             Inl e \<Rightarrow> (Inl e, box)
           | Inr r \<Rightarrow> (Inr (), box\<lparr>box_ar := Some r, box_fully_specified := Some True\<rparr>))
      | (w_opt, h_opt) \<Rightarrow>
          (case box_ar box of
             None \<Rightarrow> (Inr (), box)
           | Some ar \<Rightarrow>
               (case h_opt of
                  Some h \<Rightarrow>
                    (Inr (), box\<lparr>box_width := Some (py_int (py_mul rnd h (PyFrac ar))),
                                 box_fully_specified := Some True\<rparr>)
                | None \<Rightarrow>
                    (case w_opt of
                       Some w \<Rightarrow>
                         (case py_truediv rnd w (PyFrac ar) of
                            Inl e \<Rightarrow> (Inl e, box)
                          | Inr q \<Rightarrow>
                              (Inr (), box\<lparr>box_height := Some (py_int q),
                                           box_fully_specified := Some True\<rparr>))
                     | None \<Rightarrow> (Inr (), box)))))"

text \<open>The properties \<^verbatim>\<open>width\<close>, \<^verbatim>\<open>height\<close>, \<^verbatim>\<open>aspect_ratio\<close> and their probes.\<close>

definition width :: "BoxConstraints \<Rightarrow> error + pynum" where
  "width box = (case box_width box of Some w \<Rightarrow> Inr w | None \<Rightarrow> Inl BoxSpecificationError)"

definition width_defined :: "BoxConstraints \<Rightarrow> bool" where
  "width_defined box = (box_width box \<noteq> None)"

definition height :: "BoxConstraints \<Rightarrow> error + pynum" where
  "height box = (case box_height box of Some h \<Rightarrow> Inr h | None \<Rightarrow> Inl BoxSpecificationError)"

definition height_defined :: "BoxConstraints \<Rightarrow> bool" where
  "height_defined box = (box_height box \<noteq> None)"

definition aspect_ratio :: "BoxConstraints \<Rightarrow> error + rat" where
  "aspect_ratio box = (case box_ar box of Some r \<Rightarrow> Inr r | None \<Rightarrow> Inl BoxSpecificationError)"

definition aspect_ratio_defined :: "BoxConstraints \<Rightarrow> bool" where
  "aspect_ratio_defined box = (box_ar box \<noteq> None)"

text \<open>The setters \<^verbatim>\<open>box.width = v\<close> and \<^verbatim>\<open>box.height = v\<close>.\<close>

definition set_width :: "(rat \<Rightarrow> rat) \<Rightarrow> BoxConstraints \<Rightarrow> pynum \<Rightarrow> (error + unit) \<times> BoxConstraints" where
  "set_width rnd box v =
     (if box_width box = None then recalculate rnd (box\<lparr>box_width := Some v\<rparr>)
      else (Inl BoxSpecificationError, box))"

definition set_height :: "(rat \<Rightarrow> rat) \<Rightarrow> BoxConstraints \<Rightarrow> pynum \<Rightarrow> (error + unit) \<times> BoxConstraints" where
  "set_height rnd box v =
     (if box_height box = None then recalculate rnd (box\<lparr>box_height := Some v\<rparr>)
      else (Inl BoxSpecificationError, box))"

section \<open>Scaling policies, alignments, margins\<close>

datatype InnerScaling = NO_SCALING | STRETCH_FILL | STRETCH_TO_FIT | SHRINK_TO_FIT

datatype AxisAlignment = ALIGN_MIN | ALIGN_MID | ALIGN_MAX

fun flipped :: "AxisAlignment \<Rightarrow> AxisAlignment" where
  "flipped ALIGN_MID = ALIGN_MID"
| "flipped ALIGN_MIN = ALIGN_MAX"
| "flipped ALIGN_MAX = ALIGN_MIN"

text \<open>The dataclass \<^verbatim>\<open>Margins\<close>, its four fields annotated \<^verbatim>\<open>int\<close>.\<close>

record Margins =
  left :: int
  right :: int
  top_margin :: int
  bottom :: int

definition uniform :: "int \<Rightarrow> Margins" where
  "uniform num = \<lparr>left = num, right = num, top_margin = num, bottom = num\<rparr>"

text \<open>\<^verbatim>\<open>Margins.effective(dim_name, container_len, pre, post)\<close>.\<close>

definition effective :: "(rat \<Rightarrow> rat) \<Rightarrow> string \<Rightarrow> pynum \<Rightarrow> pynum \<Rightarrow> pynum \<Rightarrow> error + pynum" where
  "effective rnd dim_name container_len pre post =
     (let eff = py_sub rnd (py_sub rnd container_len pre) post in
      if py_lt eff (PyInt 0) then Inl (LayoutError dim_name container_len pre post)
      else Inr eff)"

definition effective_width :: "(rat \<Rightarrow> rat) \<Rightarrow> Margins \<Rightarrow> pynum \<Rightarrow> error + pynum" where
  "effective_width rnd m w = effective rnd ''width'' w (PyInt (left m)) (PyInt (right m))"

definition effective_height :: "(rat \<Rightarrow> rat) \<Rightarrow> Margins \<Rightarrow> pynum \<Rightarrow> error + pynum" where
  "effective_height rnd m h = effective rnd ''height'' h (PyInt (bottom m)) (PyInt (top_margin m))"

text \<open>
  The one call of \<^verbatim>\<open>logger.warning\<close>, recorded as an event holding the four values its
  message is formatted from: inner length, container length and the two margins.
\<close>

datatype warning = ContentTooWide pynum pynum pynum pynum

text \<open>
  \<^verbatim>\<open>AxisAlignment.align(container_len, inner_len, pre_margin, post_margin)\<close>: the outcome
  and the warnings logged by the call. The effective length is computed first, for every
  alignment; the last branch of the source is the one for \<^verbatim>\<open>ALIGN_MID\<close>.
\<close>

definition align ::
  "(rat \<Rightarrow> rat) \<Rightarrow> AxisAlignment \<Rightarrow> pynum \<Rightarrow> pynum \<Rightarrow> pynum \<Rightarrow> pynum \<Rightarrow> (error + pynum) \<times> warning list" where
  "align rnd self container_len inner_len pre_margin post_margin =
     (case effective rnd ''length'' container_len pre_margin post_margin of
        Inl e \<Rightarrow> (Inl e, [])
      | Inr effective_max_len \<Rightarrow>
          if self = ALIGN_MAX then
            (Inr (py_sub rnd (py_sub rnd container_len inner_len) post_margin), [])
          else if self = ALIGN_MIN then (Inr pre_margin, [])
          else if py_gt inner_len effective_max_len then
            (Inr pre_margin, [ContentTooWide inner_len container_len pre_margin post_margin])
          else
            (case py_floordiv rnd (py_sub rnd effective_max_len inner_len) (PyInt 2) of
               Inl e \<Rightarrow> (Inl e, [])
             | Inr inner_offset \<Rightarrow> (Inr (py_add rnd pre_margin inner_offset), [])))"

section \<open>Positioning and the layout rule\<close>

record Positioning =
  x_pos :: pynum
  y_pos :: pynum
  x_scale :: pynum
  y_scale :: pynum

text \<open>
  \<^verbatim>\<open>_aln_width\<close> and \<^verbatim>\<open>_aln_height\<close>: the offset, the container as the call leaves it,
  and the warnings logged.
\<close>

definition aln_width ::
  "(rat \<Rightarrow> rat) \<Rightarrow> AxisAlignment \<Rightarrow> BoxConstraints \<Rightarrow> pynum \<Rightarrow> pynum \<Rightarrow> pynum
     \<Rightarrow> (error + pynum) \<times> BoxConstraints \<times> warning list" where
  "aln_width rnd alignment container_box inner_nat_width pre_margin post_margin =
     (if width_defined container_box then
        (case width container_box of
           Inl e \<Rightarrow> (Inl e, container_box, [])
         | Inr w \<Rightarrow>
             (case align rnd alignment w inner_nat_width pre_margin post_margin of
                (r, ws) \<Rightarrow> (r, container_box, ws)))
      else
        (case set_width rnd container_box
                (py_add rnd (py_add rnd inner_nat_width pre_margin) post_margin) of
           (Inl e, box') \<Rightarrow> (Inl e, box', [])
         | (Inr u, box') \<Rightarrow> (Inr pre_margin, box', [])))"

definition aln_height ::
  "(rat \<Rightarrow> rat) \<Rightarrow> AxisAlignment \<Rightarrow> BoxConstraints \<Rightarrow> pynum \<Rightarrow> pynum \<Rightarrow> pynum
     \<Rightarrow> (error + pynum) \<times> BoxConstraints \<times> warning list" where
  "aln_height rnd alignment container_box inner_nat_height pre_margin post_margin =
     (if height_defined container_box then
        (case height container_box of
           Inl e \<Rightarrow> (Inl e, container_box, [])
         | Inr h \<Rightarrow>
             (case align rnd alignment h inner_nat_height pre_margin post_margin of
                (r, ws) \<Rightarrow> (r, container_box, ws)))
      else
        (case set_height rnd container_box
                (py_add rnd (py_add rnd inner_nat_height pre_margin) post_margin) of
           (Inl e, box') \<Rightarrow> (Inl e, box', [])
         | (Inr u, box') \<Rightarrow> (Inr pre_margin, box', [])))"

record SimpleBoxLayoutRule =
  x_align :: AxisAlignment
  y_align :: AxisAlignment
  margins :: Margins
  inner_content_scaling :: InnerScaling

definition substitute_margins :: "SimpleBoxLayoutRule \<Rightarrow> Margins \<Rightarrow> SimpleBoxLayoutRule" where
  "substitute_margins self new_margins =
     \<lparr>x_align = x_align self, y_align = y_align self, margins = new_margins,
      inner_content_scaling = inner_content_scaling self\<rparr>"

text \<open>
  The first half of \<^verbatim>\<open>SimpleBoxLayoutRule.fit\<close>: the pair \<^verbatim>\<open>(x_scale, y_scale)\<close> as it
  stands before the two alignment calls. The natural sizes are annotated \<^verbatim>\<open>int\<close>.
\<close>

definition fit_scales ::
  "(rat \<Rightarrow> rat) \<Rightarrow> SimpleBoxLayoutRule \<Rightarrow> BoxConstraints \<Rightarrow> int \<Rightarrow> int \<Rightarrow> error + (pynum \<times> pynum)" where
  "fit_scales rnd self container_box inner_nat_width inner_nat_height =
     (let scaling = inner_content_scaling self in
      if scaling \<noteq> NO_SCALING \<and> width_defined container_box \<and> height_defined container_box then
        (case width container_box of
           Inl e \<Rightarrow> Inl e
         | Inr w \<Rightarrow>
        (case effective_width rnd (margins self) w of
           Inl e \<Rightarrow> Inl e
         | Inr eff_width \<Rightarrow>
        (case height container_box of
           Inl e \<Rightarrow> Inl e
         | Inr h \<Rightarrow>
        (case effective_height rnd (margins self) h of
           Inl e \<Rightarrow> Inl e
         | Inr eff_height \<Rightarrow>
        (case py_truediv rnd eff_width (PyInt inner_nat_width) of
           Inl e \<Rightarrow> Inl e
         | Inr xs \<Rightarrow>
        (case py_truediv rnd eff_height (PyInt inner_nat_height) of
           Inl e \<Rightarrow> Inl e
         | Inr ys \<Rightarrow>
             if scaling = STRETCH_TO_FIT then Inr (py_min xs ys, py_min xs ys)
             else if scaling = SHRINK_TO_FIT then
               Inr (py_min3 xs ys (PyInt 1), py_min3 xs ys (PyInt 1))
             else Inr (xs, ys)))))))
      else Inr (PyInt 1, PyInt 1))"

text \<open>
  \<^verbatim>\<open>SimpleBoxLayoutRule.fit(container_box, inner_nat_width, inner_nat_height)\<close>: the
  Positioning or the exception, the container as the call leaves it, and the warnings logged.
\<close>

definition fit ::
  "(rat \<Rightarrow> rat) \<Rightarrow> SimpleBoxLayoutRule \<Rightarrow> BoxConstraints \<Rightarrow> int \<Rightarrow> int
     \<Rightarrow> (error + Positioning) \<times> BoxConstraints \<times> warning list" where
  "fit rnd self container_box inner_nat_width inner_nat_height =
     (case fit_scales rnd self container_box inner_nat_width inner_nat_height of
        Inl e \<Rightarrow> (Inl e, container_box, [])
      | Inr (xs, ys) \<Rightarrow>
          (case aln_width rnd (x_align self) container_box
                  (py_mul rnd (PyInt inner_nat_width) xs)
                  (PyInt (left (margins self))) (PyInt (right (margins self))) of
             (Inl e, box1, ws1) \<Rightarrow> (Inl e, box1, ws1)
           | (Inr xp, box1, ws1) \<Rightarrow>
               (case aln_height rnd (y_align self) box1
                       (py_mul rnd (PyInt inner_nat_height) ys)
                       (PyInt (bottom (margins self))) (PyInt (top_margin (margins self))) of
                  (Inl e, box2, ws2) \<Rightarrow> (Inl e, box2, ws1 @ ws2)
                | (Inr yp, box2, ws2) \<Rightarrow>
                    (Inr \<lparr>x_pos = xp, y_pos = yp, x_scale = xs, y_scale = ys\<rparr>,
                     box2, ws1 @ ws2))))"

section \<open>Exact arithmetic\<close>

text \<open>
  On ints and Fractions Python computes exactly: the value of a sum, difference or product is
  the sum, difference or product of the values, and no float appears.
\<close>

lemma arith_exact:
  assumes "\<not> is_float a" "\<not> is_float b"
    and "\<And>i j. of_int (iop i j) = qop (of_int i) (of_int j)"
  shows "val (arith rnd iop qop a b) = qop (val a) (val b) \<and> \<not> is_float (arith rnd iop qop a b)"
  using assms by (cases a; cases b) simp_all

lemma py_sub_exact:
  "\<not> is_float a \<Longrightarrow> \<not> is_float b \<Longrightarrow>
     val (py_sub rnd a b) = val a - val b \<and> \<not> is_float (py_sub rnd a b)"
  unfolding py_sub_def by (rule arith_exact) simp_all

lemma py_add_exact:
  "\<not> is_float a \<Longrightarrow> \<not> is_float b \<Longrightarrow>
     val (py_add rnd a b) = val a + val b \<and> \<not> is_float (py_add rnd a b)"
  unfolding py_add_def by (rule arith_exact) simp_all

lemma effective_exact:
  assumes "\<not> is_float c" "\<not> is_float pre" "\<not> is_float post"
  shows "effective rnd n c pre post =
           (if val c - val pre - val post < 0 then Inl (LayoutError n c pre post)
            else Inr (py_sub rnd (py_sub rnd c pre) post))"
    and "val (py_sub rnd (py_sub rnd c pre) post) = val c - val pre - val post"
    and "\<not> is_float (py_sub rnd (py_sub rnd c pre) post)"
  using assms by (simp_all add: effective_def Let_def py_lt_def py_sub_exact)

lemma val_py_min: "val (py_min a b) = min (val a) (val b)"
  by (simp add: py_min_def py_lt_def min_def)

lemma val_py_min3: "val (py_min3 a b c) = min (min (val a) (val b)) (val c)"
  by (simp add: py_min3_def val_py_min)

lemma val_py_min_eq: "py_min a b = r \<Longrightarrow> val r = min (val a) (val b)"
  using val_py_min by blast

lemma val_py_min3_one: "py_min3 a b (PyInt 1) = r \<Longrightarrow> val r = min (min (val a) (val b)) 1"
  using val_py_min3 [of a b "PyInt 1"] by auto

text \<open>Dividing by the literal 2 raises nothing, unless a rounding takes the float 2 to 0.\<close>

lemma py_floordiv_two:
  assumes "is_float a \<longrightarrow> rnd 2 \<noteq> 0"
  shows "\<exists>q. py_floordiv rnd a (PyInt 2) = Inr q"
  using assms by (simp add: py_floordiv_def)

lemma py_floordiv_two_exact:
  assumes "\<not> is_float a"
  shows "py_floordiv rnd a (PyInt 2) = Inr (PyInt (floor (val a / 2)))"
  using assms by (simp add: py_floordiv_def)

section \<open>Construction\<close>

text \<open>
  C7. Constructing a BoxConstraints with width, height and aspect ratio all given raises
  BoxSpecificationError, whatever the three values are (also when the ratio equals
  width/height, and also when the height is zero: the check precedes the Fraction).
\<close>

theorem init_overspecified:
  "BoxConstraints_init rnd (Some w) (Some h) (Some ar) = Inl BoxSpecificationError"
  by (simp add: BoxConstraints_init_def)

text \<open>
  C8. Constructing with an aspect ratio and exactly one of width and height leaves
  \<^verbatim>\<open>_fully_specified\<close> false although both dimensions are then defined; constructing with
  width and height and no aspect ratio sets it true. The dimensions are integers, as in the
  data model. No box is constructed in two degenerate cases, where the constructor raises
  ZeroDivisionError: a zero aspect ratio in \<^verbatim>\<open>width / aspect_ratio\<close>, and a zero height
  in \<^verbatim>\<open>Fraction(width, height)\<close>.
\<close>

theorem init_fully_specified_flag:
  "(\<exists>b. BoxConstraints_init rnd None (Some (PyInt h)) (Some ar) = Inr b \<and>
        box_fully_specified b = Some False \<and> width_defined b \<and> height_defined b) \<and>
   (ar \<noteq> 0 \<longrightarrow>
      (\<exists>b. BoxConstraints_init rnd (Some (PyInt w)) None (Some ar) = Inr b \<and>
           box_fully_specified b = Some False \<and> width_defined b \<and> height_defined b)) \<and>
   (ar = 0 \<longrightarrow>
      BoxConstraints_init rnd (Some (PyInt w)) None (Some ar) = Inl ZeroDivisionError) \<and>
   (h \<noteq> 0 \<longrightarrow>
      (\<exists>b. BoxConstraints_init rnd (Some (PyInt w)) (Some (PyInt h)) None = Inr b \<and>
           box_fully_specified b = Some True \<and> width_defined b \<and> height_defined b)) \<and>
   (h = 0 \<longrightarrow>
      BoxConstraints_init rnd (Some (PyInt w)) (Some (PyInt h)) None = Inl ZeroDivisionError)"
  by (simp add: BoxConstraints_init_def py_int_def py_truediv_def py_Fraction_def
        width_defined_def height_defined_def)

theorem init_fully_specified_flag_witness:
  "(\<exists>b. BoxConstraints_init id None (Some (PyInt 5)) (Some 2) = Inr b \<and>
        box_fully_specified b = Some False \<and> width_defined b \<and> height_defined b) \<and>
   (\<exists>b. BoxConstraints_init id (Some (PyInt 10)) None (Some 2) = Inr b \<and>
        box_fully_specified b = Some False \<and> width_defined b \<and> height_defined b) \<and>
   (\<exists>b. BoxConstraints_init id (Some (PyInt 10)) (Some (PyInt 5)) None = Inr b \<and>
        box_fully_specified b = Some True \<and> width_defined b \<and> height_defined b)"
  using init_fully_specified_flag [of id 5 2 10] by simp

text \<open>
  C4. The claim: with an aspect ratio and exactly one dimension, the constructor derives the
  missing dimension with the integer truncation that recalculation uses. The constructor assigns
  \<^verbatim>\<open>height * aspect_ratio\<close> and \<^verbatim>\<open>width / aspect_ratio\<close> without \<^verbatim>\<open>int\<close>: for height 3
  and ratio 1/2 the stored width is the Fraction 3/2, and for width 3 and ratio 2 the stored
  height is the Fraction 3/2, where recalculation after \<^verbatim>\<open>box.height = 3\<close> on a box of ratio
  1/2 stores the width \<^verbatim>\<open>int(3 * 1/2) = 1\<close>.
\<close>

theorem init_derives_without_truncation:
  "BoxConstraints_init id None (Some (PyInt 3)) (Some (1 / 2)) =
     Inr \<lparr>box_width = Some (PyFrac (3 / 2)), box_height = Some (PyInt 3),
          box_ar = Some (1 / 2), box_fully_specified = Some False\<rparr> \<and>
   BoxConstraints_init id (Some (PyInt 3)) None (Some 2) =
     Inr \<lparr>box_width = Some (PyInt 3), box_height = Some (PyFrac (3 / 2)),
          box_ar = Some 2, box_fully_specified = Some False\<rparr> \<and>
   set_height id \<lparr>box_width = None, box_height = None, box_ar = Some (1 / 2),
                  box_fully_specified = Some False\<rparr> (PyInt 3) =
     (Inr (), \<lparr>box_width = Some (PyInt 1), box_height = Some (PyInt 3),
               box_ar = Some (1 / 2), box_fully_specified = Some True\<rparr>)"
  by (simp add: BoxConstraints_init_def py_int_def py_mul_def py_truediv_def set_height_def
        recalculate_def trunc_def floor_eq_iff)

section \<open>Accessors and setters\<close>

lemma recalculate_error:
  "fst (recalculate rnd box) \<noteq> Inl BoxSpecificationError"
  by (auto simp add: recalculate_def py_Fraction_def py_truediv_def
        split: option.splits sum.splits prod.splits pynum.splits)

lemma recalculate_width_kept:
  "box_width box = Some v \<Longrightarrow> box_width (snd (recalculate rnd box)) = Some v"
  by (auto simp add: recalculate_def split: option.splits sum.splits)

lemma recalculate_height_kept:
  "box_height box = Some v \<Longrightarrow> box_height (snd (recalculate rnd box)) = Some v"
  by (auto simp add: recalculate_def split: option.splits sum.splits)

text \<open>
  C6. Reading \<^verbatim>\<open>width\<close>, \<^verbatim>\<open>height\<close> or \<^verbatim>\<open>aspect_ratio\<close> raises BoxSpecificationError
  exactly when the field is unset, and returns the field otherwise; the three probes are
  Booleans that tell whether the field is set. Assigning \<^verbatim>\<open>width\<close> or \<^verbatim>\<open>height\<close> raises
  BoxSpecificationError exactly when that dimension is already defined, and then leaves the box
  as it was; otherwise the assignment stores the value and runs the recalculation, which keeps
  the value stored (and may itself raise ZeroDivisionError or TypeError, never
  BoxSpecificationError).
\<close>

theorem accessors_and_setters:
  "(width box = Inl BoxSpecificationError \<longleftrightarrow> box_width box = None) \<and>
   (height box = Inl BoxSpecificationError \<longleftrightarrow> box_height box = None) \<and>
   (aspect_ratio box = Inl BoxSpecificationError \<longleftrightarrow> box_ar box = None) \<and>
   (\<forall>v. box_width box = Some v \<longrightarrow> width box = Inr v) \<and>
   (\<forall>v. box_height box = Some v \<longrightarrow> height box = Inr v) \<and>
   (\<forall>r. box_ar box = Some r \<longrightarrow> aspect_ratio box = Inr r) \<and>
   (width_defined box \<longleftrightarrow> box_width box \<noteq> None) \<and>
   (height_defined box \<longleftrightarrow> box_height box \<noteq> None) \<and>
   (aspect_ratio_defined box \<longleftrightarrow> box_ar box \<noteq> None) \<and>
   (fst (set_width rnd box v) = Inl BoxSpecificationError \<longleftrightarrow> box_width box \<noteq> None) \<and>
   (fst (set_height rnd box v) = Inl BoxSpecificationError \<longleftrightarrow> box_height box \<noteq> None) \<and>
   (box_width box \<noteq> None \<longrightarrow> set_width rnd box v = (Inl BoxSpecificationError, box)) \<and>
   (box_height box \<noteq> None \<longrightarrow> set_height rnd box v = (Inl BoxSpecificationError, box)) \<and>
   (box_width box = None \<longrightarrow>
      set_width rnd box v = recalculate rnd (box\<lparr>box_width := Some v\<rparr>) \<and>
      box_width (snd (set_width rnd box v)) = Some v) \<and>
   (box_height box = None \<longrightarrow>
      set_height rnd box v = recalculate rnd (box\<lparr>box_height := Some v\<rparr>) \<and>
      box_height (snd (set_height rnd box v)) = Some v)"
  by (auto simp add: width_def height_def aspect_ratio_def width_defined_def height_defined_def
        aspect_ratio_defined_def set_width_def set_height_def recalculate_error
        recalculate_width_kept recalculate_height_kept split: option.splits)

theorem accessors_and_setters_witness:
  "width \<lparr>box_width = None, box_height = None, box_ar = None, box_fully_specified = None\<rparr>
     = Inl BoxSpecificationError \<and>
   set_width id \<lparr>box_width = None, box_height = None, box_ar = None, box_fully_specified = None\<rparr>
       (PyInt 10)
     = recalculate id \<lparr>box_width = Some (PyInt 10), box_height = None, box_ar = None,
                        box_fully_specified = None\<rparr> \<and>
   width \<lparr>box_width = Some (PyInt 10), box_height = None, box_ar = None,
          box_fully_specified = None\<rparr> = Inr (PyInt 10) \<and>
   set_width id \<lparr>box_width = Some (PyInt 10), box_height = None, box_ar = None,
                 box_fully_specified = None\<rparr> (PyInt 11)
     = (Inl BoxSpecificationError,
        \<lparr>box_width = Some (PyInt 10), box_height = None, box_ar = None,
         box_fully_specified = None\<rparr>)"
  using accessors_and_setters
          [of "\<lparr>box_width = None, box_height = None, box_ar = None, box_fully_specified = None\<rparr>"
              id "PyInt 10"]
        accessors_and_setters
          [of "\<lparr>box_width = Some (PyInt 10), box_height = None, box_ar = None,
                box_fully_specified = None\<rparr>" id "PyInt 11"]
  by simp

section \<open>Alignment along one axis\<close>

text \<open>
  C3. The claim: for all inputs, \<^verbatim>\<open>ALIGN_MAX.align\<close> returns
  \<^verbatim>\<open>container_len - inner_len - post_margin\<close>, \<^verbatim>\<open>ALIGN_MIN.align\<close> returns
  \<^verbatim>\<open>pre_margin\<close>, and \<^verbatim>\<open>ALIGN_MID.align\<close>, when the inner length fits between the
  margins, returns \<^verbatim>\<open>pre_margin\<close> plus the floor of half the remaining space. The call
  raises LayoutError, for every alignment, when the margins exceed the container length: a
  container of length 10 with margins 6 and 6 gives no offset, neither for \<^verbatim>\<open>ALIGN_MIN\<close>
  nor for \<^verbatim>\<open>ALIGN_MAX\<close>.
\<close>

theorem align_offsets_counterexample:
  "align id ALIGN_MIN (PyInt 10) (PyInt 2) (PyInt 6) (PyInt 6) =
     (Inl (LayoutError ''length'' (PyInt 10) (PyInt 6) (PyInt 6)), []) \<and>
   align id ALIGN_MAX (PyInt 10) (PyInt 2) (PyInt 6) (PyInt 6) =
     (Inl (LayoutError ''length'' (PyInt 10) (PyInt 6) (PyInt 6)), [])"
  by (simp add: align_def effective_def py_sub_def py_lt_def)

text \<open>
  C3, amended. Whenever \<^verbatim>\<open>container_len - pre_margin - post_margin\<close>, as Python computes
  it, is not negative (otherwise the call raises LayoutError for every alignment), then for
  every inner length, a float included, and with no warning logged:
  \<^verbatim>\<open>ALIGN_MAX.align\<close> returns \<^verbatim>\<open>container_len - inner_len - post_margin\<close>;
  \<^verbatim>\<open>ALIGN_MIN.align\<close> returns \<^verbatim>\<open>pre_margin\<close>; and \<^verbatim>\<open>ALIGN_MID.align\<close>, when the
  inner length is at most the effective length, returns
  \<^verbatim>\<open>pre_margin + (effective_max_len - inner_len) // 2\<close>. Each expression is evaluated in
  Python's arithmetic (for a float operand, under any rounding that does not take 2 to 0).
  On ints and Fractions that arithmetic is exact: the effective length is the container
  length minus the two margins, the \<^verbatim>\<open>ALIGN_MAX\<close> offset is the container length minus
  the inner length minus the post-margin, and the \<^verbatim>\<open>ALIGN_MID\<close> offset is the pre-margin
  plus the floor of half the space left.
\<close>

theorem align_offsets:
  assumes "0 \<le> val (py_sub rnd (py_sub rnd c pre) post)"
  shows "align rnd ALIGN_MAX c i pre post = (Inr (py_sub rnd (py_sub rnd c i) post), []) \<and>
         align rnd ALIGN_MIN c i pre post = (Inr pre, []) \<and>
         (val i \<le> val (py_sub rnd (py_sub rnd c pre) post) \<and>
          (is_float (py_sub rnd (py_sub rnd (py_sub rnd c pre) post) i) \<longrightarrow> rnd 2 \<noteq> 0) \<longrightarrow>
            (\<exists>q. py_floordiv rnd (py_sub rnd (py_sub rnd (py_sub rnd c pre) post) i) (PyInt 2) = Inr q \<and>
                 align rnd ALIGN_MID c i pre post = (Inr (py_add rnd pre q), []))) \<and>
         (\<not> is_float c \<and> \<not> is_float i \<and> \<not> is_float pre \<and> \<not> is_float post \<longrightarrow>
            val (py_sub rnd (py_sub rnd c pre) post) = val c - val pre - val post \<and>
            val (py_sub rnd (py_sub rnd c i) post) = val c - val i - val post \<and>
            (val i \<le> val c - val pre - val post \<longrightarrow>
               (\<exists>r. align rnd ALIGN_MID c i pre post = (Inr r, []) \<and>
                    val r = val pre + of_int (floor ((val c - val pre - val post - val i) / 2)))))"
proof -
  let ?eff = "py_sub rnd (py_sub rnd c pre) post"
  have eff: "effective rnd ''length'' c pre post = Inr ?eff"
    using assms by (simp add: effective_def Let_def py_lt_def)
  have mx: "align rnd ALIGN_MAX c i pre post = (Inr (py_sub rnd (py_sub rnd c i) post), [])"
    by (simp add: align_def eff)
  have mn: "align rnd ALIGN_MIN c i pre post = (Inr pre, [])"
    by (simp add: align_def eff)
  have md: "val i \<le> val ?eff \<Longrightarrow> py_floordiv rnd (py_sub rnd ?eff i) (PyInt 2) = Inr q \<Longrightarrow>
              align rnd ALIGN_MID c i pre post = (Inr (py_add rnd pre q), [])" for q
    by (simp add: align_def eff py_gt_def)
  have gen: "val i \<le> val ?eff \<and> (is_float (py_sub rnd ?eff i) \<longrightarrow> rnd 2 \<noteq> 0) \<longrightarrow>
              (\<exists>q. py_floordiv rnd (py_sub rnd ?eff i) (PyInt 2) = Inr q \<and>
                   align rnd ALIGN_MID c i pre post = (Inr (py_add rnd pre q), []))"
    using md py_floordiv_two [of "py_sub rnd ?eff i" rnd] by blast
  have ex: "\<not> is_float c \<and> \<not> is_float i \<and> \<not> is_float pre \<and> \<not> is_float post \<longrightarrow>
            val ?eff = val c - val pre - val post \<and>
            val (py_sub rnd (py_sub rnd c i) post) = val c - val i - val post \<and>
            (val i \<le> val c - val pre - val post \<longrightarrow>
               (\<exists>r. align rnd ALIGN_MID c i pre post = (Inr r, []) \<and>
                    val r = val pre + of_int (floor ((val c - val pre - val post - val i) / 2))))"
  proof (intro impI)
    assume nf: "\<not> is_float c \<and> \<not> is_float i \<and> \<not> is_float pre \<and> \<not> is_float post"
    have v: "val ?eff = val c - val pre - val post" and f: "\<not> is_float ?eff"
      using nf by (simp_all add: effective_exact)
    have v2: "val (py_sub rnd (py_sub rnd c i) post) = val c - val i - val post"
      using nf by (simp add: py_sub_exact)
    have d: "val (py_sub rnd ?eff i) = val c - val pre - val post - val i"
      and df: "\<not> is_float (py_sub rnd ?eff i)"
      using nf f v by (simp_all add: py_sub_exact)
    have q: "py_floordiv rnd (py_sub rnd ?eff i) (PyInt 2) =
               Inr (PyInt (floor ((val c - val pre - val post - val i) / 2)))"
      using py_floordiv_two_exact [OF df, of rnd] d by simp
    have m: "val i \<le> val c - val pre - val post \<longrightarrow>
               (\<exists>r. align rnd ALIGN_MID c i pre post = (Inr r, []) \<and>
                    val r = val pre + of_int (floor ((val c - val pre - val post - val i) / 2)))"
    proof
      assume le: "val i \<le> val c - val pre - val post"
      have "align rnd ALIGN_MID c i pre post =
              (Inr (py_add rnd pre (PyInt (floor ((val c - val pre - val post - val i) / 2)))), [])"
        using md [OF _ q] le v by simp
      moreover have "val (py_add rnd pre (PyInt (floor ((val c - val pre - val post - val i) / 2)))) =
              val pre + of_int (floor ((val c - val pre - val post - val i) / 2))"
        using nf by (simp add: py_add_exact)
      ultimately show "\<exists>r. align rnd ALIGN_MID c i pre post = (Inr r, []) \<and>
                    val r = val pre + of_int (floor ((val c - val pre - val post - val i) / 2))"
        by blast
    qed
    show "val ?eff = val c - val pre - val post \<and>
            val (py_sub rnd (py_sub rnd c i) post) = val c - val i - val post \<and>
            (val i \<le> val c - val pre - val post \<longrightarrow>
               (\<exists>r. align rnd ALIGN_MID c i pre post = (Inr r, []) \<and>
                    val r = val pre + of_int (floor ((val c - val pre - val post - val i) / 2))))"
      using v v2 m by blast
  qed
  show ?thesis using mx mn gen ex by blast
qed

theorem align_offsets_witness:
  "align id ALIGN_MAX (PyInt 100) (PyInt 20) (PyInt 5) (PyInt 5) = (Inr (PyInt 75), []) \<and>
   align id ALIGN_MIN (PyInt 100) (PyInt 20) (PyInt 5) (PyInt 5) = (Inr (PyInt 5), []) \<and>
   (\<exists>r. align id ALIGN_MID (PyInt 100) (PyInt 20) (PyInt 5) (PyInt 5) = (Inr r, []) \<and> val r = 40) \<and>
   align id ALIGN_MAX (PyInt 100) (PyFloat 20) (PyInt 5) (PyInt 5) = (Inr (PyFloat 75), []) \<and>
   align id ALIGN_MIN (PyInt 100) (PyFloat 20) (PyInt 5) (PyInt 5) = (Inr (PyInt 5), []) \<and>
   align id ALIGN_MID (PyInt 100) (PyFloat 20) (PyInt 5) (PyInt 5) = (Inr (PyFloat 40), [])"
proof -
  have fl: "floor ((70::rat) / 2) = 35"
    by (simp add: floor_eq_iff)
  have h: "0 \<le> val (py_sub id (py_sub id (PyInt 100) (PyInt 5)) (PyInt 5))"
    by (simp add: py_sub_def)
  show ?thesis
    using align_offsets [OF h, of "PyInt 20"] align_offsets [OF h, of "PyFloat 20"] fl
    by (simp add: py_sub_def py_add_def py_floordiv_def)
qed

text \<open>
  C5. For \<^verbatim>\<open>ALIGN_MID\<close>, when the margins fit in the container and the inner length
  exceeds the effective length, the call does not raise: it logs exactly one warning and
  returns \<^verbatim>\<open>pre_margin\<close>, as \<^verbatim>\<open>ALIGN_MIN\<close> does. The container length and the margins
  are ints or Fractions; the inner length is any number.
\<close>

theorem align_mid_overflow:
  assumes "\<not> is_float c" "\<not> is_float pre" "\<not> is_float post"
    and "0 \<le> val c - val pre - val post"
    and "val c - val pre - val post < val i"
  shows "align rnd ALIGN_MID c i pre post = (Inr pre, [ContentTooWide i c pre post])"
  using assms by (simp add: align_def effective_exact py_gt_def)

theorem align_mid_overflow_witness:
  "align id ALIGN_MID (PyInt 100) (PyInt 95) (PyInt 5) (PyInt 5) =
     (Inr (PyInt 5), [ContentTooWide (PyInt 95) (PyInt 100) (PyInt 5) (PyInt 5)])"
  using align_mid_overflow [of "PyInt 100" "PyInt 5" "PyInt 5" "PyInt 95" id] by simp

text \<open>
  C9. For every alignment, \<^verbatim>\<open>ALIGN_MIN\<close> and \<^verbatim>\<open>ALIGN_MAX\<close> included, the call raises
  LayoutError whenever \<^verbatim>\<open>pre_margin + post_margin\<close> exceeds the container length, because
  the effective length is computed and checked before the alignment is looked at; so an offset
  is returned only when the margins fit. The container length and the margins are ints or
  Fractions.
\<close>

theorem align_margins_too_wide:
  assumes "\<not> is_float c" "\<not> is_float pre" "\<not> is_float post"
  shows "(val c < val pre + val post \<longrightarrow>
            align rnd a c i pre post = (Inl (LayoutError ''length'' c pre post), [])) \<and>
         (\<forall>r ws. align rnd a c i pre post = (Inr r, ws) \<longrightarrow> val pre + val post \<le> val c)"
  using assms by (auto simp add: align_def effective_exact)

theorem align_margins_too_wide_witness:
  "align id ALIGN_MAX (PyInt 10) (PyInt 2) (PyInt 7) (PyInt 6) =
     (Inl (LayoutError ''length'' (PyInt 10) (PyInt 7) (PyInt 6)), []) \<and>
   align id ALIGN_MIN (PyInt 10) (PyInt 2) (PyInt 7) (PyInt 6) =
     (Inl (LayoutError ''length'' (PyInt 10) (PyInt 7) (PyInt 6)), []) \<and>
   align id ALIGN_MID (PyInt 10) (PyInt 2) (PyInt 7) (PyInt 6) =
     (Inl (LayoutError ''length'' (PyInt 10) (PyInt 7) (PyInt 6)), [])"
  using align_margins_too_wide [of "PyInt 10" "PyInt 7" "PyInt 6" id ALIGN_MAX "PyInt 2"]
        align_margins_too_wide [of "PyInt 10" "PyInt 7" "PyInt 6" id ALIGN_MIN "PyInt 2"]
        align_margins_too_wide [of "PyInt 10" "PyInt 7" "PyInt 6" id ALIGN_MID "PyInt 2"]
  by simp

section \<open>Fitting content into a container\<close>

text \<open>
  C1. Whenever \<^verbatim>\<open>fit\<close> returns a Positioning: if the scaling policy is not
  \<^verbatim>\<open>NO_SCALING\<close> and the container has both width and height, the base scales are
  \<^verbatim>\<open>margins.effective_width(container.width) / inner_nat_width\<close> and
  \<^verbatim>\<open>margins.effective_height(container.height) / inner_nat_height\<close>; under
  \<^verbatim>\<open>STRETCH_TO_FIT\<close> both returned scales are their minimum, under \<^verbatim>\<open>SHRINK_TO_FIT\<close>
  both are the minimum of the two and 1, and under the remaining policy \<^verbatim>\<open>STRETCH_FILL\<close>
  the two base scales are returned as they are. In every other case (policy
  \<^verbatim>\<open>NO_SCALING\<close>, or a dimension of the container unresolved) both scales are the int 1.
  The call returns no Positioning when an effective length is negative (LayoutError) or a
  natural size is zero (ZeroDivisionError).
\<close>

theorem fit_scale_selection:
  assumes "fit rnd self box w h = (Inr pos, box', ws)"
  shows "(inner_content_scaling self \<noteq> NO_SCALING \<and> width_defined box \<and> height_defined box \<longrightarrow>
           (\<exists>bw bh eff_w eff_h xs ys.
              width box = Inr bw \<and> height box = Inr bh \<and>
              effective_width rnd (margins self) bw = Inr eff_w \<and>
              effective_height rnd (margins self) bh = Inr eff_h \<and>
              py_truediv rnd eff_w (PyInt w) = Inr xs \<and>
              py_truediv rnd eff_h (PyInt h) = Inr ys \<and>
              (inner_content_scaling self = STRETCH_TO_FIT \<longrightarrow>
                 x_scale pos = py_min xs ys \<and> y_scale pos = py_min xs ys \<and>
                 val (x_scale pos) = min (val xs) (val ys)) \<and>
              (inner_content_scaling self = SHRINK_TO_FIT \<longrightarrow>
                 x_scale pos = py_min3 xs ys (PyInt 1) \<and> y_scale pos = py_min3 xs ys (PyInt 1) \<and>
                 val (x_scale pos) = min (min (val xs) (val ys)) 1) \<and>
              (inner_content_scaling self = STRETCH_FILL \<longrightarrow>
                 x_scale pos = xs \<and> y_scale pos = ys))) \<and>
         (inner_content_scaling self = NO_SCALING \<or> \<not> width_defined box \<or> \<not> height_defined box \<longrightarrow>
            x_scale pos = PyInt 1 \<and> y_scale pos = PyInt 1)"
proof -
  obtain xs ys where sc: "fit_scales rnd self box w h = Inr (xs, ys)"
    using assms by (auto simp add: fit_def split: sum.splits)
  have pos: "x_scale pos = xs \<and> y_scale pos = ys"
    using assms sc by (auto simp add: fit_def split: sum.splits prod.splits)
  show ?thesis
    using sc pos
    by (cases "inner_content_scaling self")
       (auto simp add: fit_scales_def split: sum.splits if_splits
          intro: val_py_min_eq val_py_min3_one)
qed

theorem fit_scale_selection_witness:
  "fit id \<lparr>x_align = ALIGN_MID, y_align = ALIGN_MID,
            margins = \<lparr>left = 0, right = 0, top_margin = 0, bottom = 0\<rparr>,
            inner_content_scaling = SHRINK_TO_FIT\<rparr>
          \<lparr>box_width = Some (PyInt 200), box_height = Some (PyInt 100), box_ar = Some 2,
           box_fully_specified = Some True\<rparr> 100 100 =
     (Inr \<lparr>x_pos = PyFloat 50, y_pos = PyFloat 0, x_scale = PyFloat 1, y_scale = PyFloat 1\<rparr>,
      \<lparr>box_width = Some (PyInt 200), box_height = Some (PyInt 100), box_ar = Some 2,
       box_fully_specified = Some True\<rparr>, []) \<and>
   PyFloat 1 = py_min3 (PyFloat 2) (PyFloat 1) (PyInt 1)"
proof -
  have fl: "floor ((100::rat) / 2) = 50"
    by (simp add: floor_eq_iff)
  have run: "fit id \<lparr>x_align = ALIGN_MID, y_align = ALIGN_MID,
            margins = \<lparr>left = 0, right = 0, top_margin = 0, bottom = 0\<rparr>,
            inner_content_scaling = SHRINK_TO_FIT\<rparr>
          \<lparr>box_width = Some (PyInt 200), box_height = Some (PyInt 100), box_ar = Some 2,
           box_fully_specified = Some True\<rparr> 100 100 =
     (Inr \<lparr>x_pos = PyFloat 50, y_pos = PyFloat 0, x_scale = PyFloat 1, y_scale = PyFloat 1\<rparr>,
      \<lparr>box_width = Some (PyInt 200), box_height = Some (PyInt 100), box_ar = Some 2,
       box_fully_specified = Some True\<rparr>, [])"
    by (simp add: fit_def fit_scales_def width_defined_def height_defined_def width_def height_def
          effective_width_def effective_height_def effective_def py_sub_def py_lt_def py_gt_def
          py_truediv_def py_min3_def py_min_def py_mul_def py_add_def py_floordiv_def
          aln_width_def aln_height_def align_def fl)
  show ?thesis
    using run fit_scale_selection [OF run]
    by (simp add: width_def height_def effective_width_def effective_height_def effective_def
          py_sub_def py_lt_def py_truediv_def width_defined_def height_defined_def)
qed

text \<open>
  C2. The claim: on a container with neither width nor height defined, \<^verbatim>\<open>fit\<close> sets the
  width to \<^verbatim>\<open>inner_nat_width + left + right\<close> and the height to
  \<^verbatim>\<open>inner_nat_height + bottom + top\<close>, and returns the offsets \<^verbatim>\<open>left\<close> and
  \<^verbatim>\<open>bottom\<close>. A container that has an aspect ratio has neither width nor height defined
  either, and there the height is derived from the width: with ratio 1/2, zero margins and
  natural size 10 by 10 the height becomes 20, not 10, and the y offset under
  \<^verbatim>\<open>ALIGN_MID\<close> is 5, not 0.
\<close>

theorem fit_unresolved_autosize_counterexample:
  "fit id \<lparr>x_align = ALIGN_MID, y_align = ALIGN_MID,
            margins = \<lparr>left = 0, right = 0, top_margin = 0, bottom = 0\<rparr>,
            inner_content_scaling = SHRINK_TO_FIT\<rparr>
          \<lparr>box_width = None, box_height = None, box_ar = Some (1 / 2),
           box_fully_specified = Some False\<rparr> 10 10 =
     (Inr \<lparr>x_pos = PyInt 0, y_pos = PyInt 5, x_scale = PyInt 1, y_scale = PyInt 1\<rparr>,
      \<lparr>box_width = Some (PyInt 10), box_height = Some (PyInt 20), box_ar = Some (1 / 2),
       box_fully_specified = Some True\<rparr>, []) \<and>
   PyInt 20 \<noteq> PyInt (10 + 0 + 0) \<and> PyInt 5 \<noteq> PyInt 0"
  by (simp add: fit_def fit_scales_def width_defined_def height_defined_def aln_width_def
        aln_height_def set_width_def height_def recalculate_def py_mul_def py_add_def
        py_truediv_def py_int_def trunc_def align_def effective_def py_sub_def py_lt_def
        py_gt_def py_floordiv_def floor_eq_iff)

text \<open>
  C2, amended. On a container with no width, no height and no aspect ratio, every call of
  \<^verbatim>\<open>fit\<close> leaves the container with width \<^verbatim>\<open>inner_nat_width + left + right\<close> and
  height \<^verbatim>\<open>inner_nat_height + bottom + top\<close> and logs nothing. Unless the height just
  assigned is zero, it returns the Positioning with \<^verbatim>\<open>x_pos = left\<close>,
  \<^verbatim>\<open>y_pos = bottom\<close> and both scales 1; when that height is zero, the recalculation run
  by the assignment raises ZeroDivisionError in \<^verbatim>\<open>Fraction(width, 0)\<close>, after both
  dimensions are stored, and no Positioning is returned.
\<close>

theorem fit_unresolved_autosize:
  assumes "box_width box = None" "box_height box = None" "box_ar box = None"
  shows "\<exists>res box'. fit rnd self box w h = (res, box', []) \<and>
           box_width box' = Some (PyInt (w + left (margins self) + right (margins self))) \<and>
           box_height box' = Some (PyInt (h + bottom (margins self) + top_margin (margins self))) \<and>
           (h + bottom (margins self) + top_margin (margins self) \<noteq> 0 \<longrightarrow>
              res = Inr \<lparr>x_pos = PyInt (left (margins self)), y_pos = PyInt (bottom (margins self)),
                         x_scale = PyInt 1, y_scale = PyInt 1\<rparr>) \<and>
           (h + bottom (margins self) + top_margin (margins self) = 0 \<longrightarrow>
              res = Inl ZeroDivisionError)"
  using assms
  by (simp add: fit_def fit_scales_def width_defined_def height_defined_def aln_width_def
        aln_height_def set_width_def set_height_def recalculate_def py_mul_def py_add_def
        py_Fraction_def)

theorem fit_unresolved_autosize_witness:
  "\<exists>box'. fit id \<lparr>x_align = ALIGN_MAX, y_align = ALIGN_MID,
                   margins = \<lparr>left = 1, right = 2, top_margin = 3, bottom = 4\<rparr>,
                   inner_content_scaling = SHRINK_TO_FIT\<rparr>
                 \<lparr>box_width = None, box_height = None, box_ar = None,
                  box_fully_specified = None\<rparr> 5 7 =
            (Inr \<lparr>x_pos = PyInt 1, y_pos = PyInt 4, x_scale = PyInt 1, y_scale = PyInt 1\<rparr>,
             box', []) \<and>
          box_width box' = Some (PyInt 8) \<and> box_height box' = Some (PyInt 14)"
  using fit_unresolved_autosize
          [of "\<lparr>box_width = None, box_height = None, box_ar = None, box_fully_specified = None\<rparr>"
              id "\<lparr>x_align = ALIGN_MAX, y_align = ALIGN_MID,
                   margins = \<lparr>left = 1, right = 2, top_margin = 3, bottom = 4\<rparr>,
                   inner_content_scaling = SHRINK_TO_FIT\<rparr>" 5 7]
  by simp

text \<open>
  C10. On a container with an aspect ratio and neither width nor height, the assignment of
  the width \<^verbatim>\<open>inner_nat_width + left + right\<close> made for the x axis runs the
  recalculation, which stores the height \<^verbatim>\<open>int(width / aspect_ratio)\<close> and sets
  \<^verbatim>\<open>_fully_specified\<close>; the y axis is then aligned by \<^verbatim>\<open>y_align.align\<close> within that
  derived height, with its errors and warnings, and the height is not auto-sized. Both scales
  are 1 and \<^verbatim>\<open>x_pos\<close> is the left margin. For the degenerate aspect ratio zero the
  quotient raises ZeroDivisionError once the width is stored.
\<close>

theorem fit_aspect_ratio_container:
  assumes "box_width box = None" "box_height box = None" "box_ar box = Some ar"
  shows "(ar \<noteq> 0 \<longrightarrow>
          fit rnd self box w h =
            (let cw = w + left (margins self) + right (margins self);
                 ch = trunc (of_int cw / ar);
                 box1 = box\<lparr>box_width := Some (PyInt cw), box_height := Some (PyInt ch),
                            box_fully_specified := Some True\<rparr>
             in case align rnd (y_align self) (PyInt ch) (PyInt h)
                       (PyInt (bottom (margins self))) (PyInt (top_margin (margins self))) of
                  (Inl e, ws) \<Rightarrow> (Inl e, box1, ws)
                | (Inr yp, ws) \<Rightarrow>
                    (Inr \<lparr>x_pos = PyInt (left (margins self)), y_pos = yp,
                          x_scale = PyInt 1, y_scale = PyInt 1\<rparr>, box1, ws))) \<and>
         (ar = 0 \<longrightarrow>
          fit rnd self box w h =
            (Inl ZeroDivisionError,
             box\<lparr>box_width := Some (PyInt (w + left (margins self) + right (margins self)))\<rparr>,
             []))"
  using assms
  by (simp add: fit_def fit_scales_def width_defined_def height_defined_def aln_width_def
        aln_height_def set_width_def height_def recalculate_def py_mul_def py_add_def
        py_truediv_def py_int_def Let_def split: prod.splits sum.splits)

theorem fit_aspect_ratio_container_witness:
  "fit id \<lparr>x_align = ALIGN_MAX, y_align = ALIGN_MID,
            margins = \<lparr>left = 1, right = 2, top_margin = 3, bottom = 4\<rparr>,
            inner_content_scaling = SHRINK_TO_FIT\<rparr>
          \<lparr>box_width = None, box_height = None, box_ar = Some (1 / 2),
           box_fully_specified = Some False\<rparr> 5 7 =
     (Inr \<lparr>x_pos = PyInt 1, y_pos = PyInt 5, x_scale = PyInt 1, y_scale = PyInt 1\<rparr>,
      \<lparr>box_width = Some (PyInt 8), box_height = Some (PyInt 16), box_ar = Some (1 / 2),
       box_fully_specified = Some True\<rparr>, [])"
  using fit_aspect_ratio_container
          [of "\<lparr>box_width = None, box_height = None, box_ar = Some (1 / 2),
                box_fully_specified = Some False\<rparr>" "1 / 2" id
              "\<lparr>x_align = ALIGN_MAX, y_align = ALIGN_MID,
                margins = \<lparr>left = 1, right = 2, top_margin = 3, bottom = 4\<rparr>,
                inner_content_scaling = SHRINK_TO_FIT\<rparr>" 5 7]
  by (simp add: trunc_def align_def effective_def py_sub_def py_lt_def py_gt_def py_floordiv_def
        py_add_def floor_eq_iff)

end
